theory Spec2Isabelle
  imports Complex_Main "HOL-Library.Multiset"
begin

section \<open>Values and exceptions\<close>

text \<open>
  The arrays of \<^verbatim>\<open>utils/experiments.py\<close> hold float64 numbers. They are modelled
  in exact arithmetic: a finite float is a \<^typ>\<open>real\<close> (no rounding, no overflow), and
  the three special values that numpy produces from a division by zero are kept apart.
  Zero is unsigned and behaves as \<^verbatim>\<open>+0.0\<close>.
\<close>

datatype npfloat = Fin real | PInf | NInf | NaN

text \<open>A Python exception, identified by the name of its class.\<close>

datatype py_exception = Raised string

type_synonym 'a result = "py_exception + 'a"

fun is_finite :: "npfloat \<Rightarrow> bool" where
  "is_finite (Fin r) = True"
| "is_finite PInf = False"
| "is_finite NInf = False"
| "is_finite NaN = False"

section \<open>src/src/kerES.py\<close>

text \<open>
  \<^verbatim>\<open>def gamma(l): return l\<close>; the line \<^verbatim>\<open>return 1. / (2 * l ** 2)\<close> that follows
  is commented out.
\<close>

definition gamma :: "'a \<Rightarrow> 'a" where
  "gamma l = l"

section \<open>src/utils/experiments.py: kernel matrices\<close>

text \<open>
  \<^verbatim>\<open>np.dot\<close> of two one-dimensional arrays: the inner product, and a
  \<^verbatim>\<open>ValueError\<close> (shapes not aligned) when the lengths differ.
\<close>

definition inner_prod :: "real list \<Rightarrow> real list \<Rightarrow> real" where
  "inner_prod a b = sum_list (map (\<lambda>(x, y). x * y) (zip a b))"

definition np_dot :: "real list \<Rightarrow> real list \<Rightarrow> real result" where
  "np_dot a b =
     (if length a = length b then Inr (inner_prod a b) else Inl (Raised ''ValueError''))"

text \<open>\<^verbatim>\<open>np.zeros((r, c))\<close> and the assignment \<^verbatim>\<open>K[i][j] = v\<close>.\<close>

definition np_zeros :: "nat \<Rightarrow> nat \<Rightarrow> real list list" where
  "np_zeros r c = replicate r (replicate c 0)"

definition set_entry :: "real list list \<Rightarrow> nat \<Rightarrow> nat \<Rightarrow> real \<Rightarrow> real list list" where
  "set_entry K i j v = K[i := (K ! i)[j := v]]"

text \<open>
  \<^verbatim>\<open>precompute_K\<close>: the inner loop \<^verbatim>\<open>for j in range(i + 1)\<close> and the outer loop
  \<^verbatim>\<open>for i in range(len(X))\<close>. Every index is below \<^verbatim>\<open>len(X)\<close>, the size of the
  matrix, so no assignment is out of range; the only failure is that of \<^verbatim>\<open>np.dot\<close>,
  which leaves the function at once.
\<close>

fun precompute_K_row ::
  "real list list \<Rightarrow> nat \<Rightarrow> nat list \<Rightarrow> real list list \<Rightarrow> real list list result" where
  "precompute_K_row X i [] K = Inr K"
| "precompute_K_row X i (j # js) K =
     (case np_dot (X ! i) (X ! j) of
        Inl e \<Rightarrow> Inl e
      | Inr d \<Rightarrow>
          (let K1 = set_entry K i j (1 + d);
               K2 = set_entry K1 j i (K1 ! i ! j)
           in precompute_K_row X i js K2))"

fun precompute_K_rows ::
  "real list list \<Rightarrow> nat list \<Rightarrow> real list list \<Rightarrow> real list list result" where
  "precompute_K_rows X [] K = Inr K"
| "precompute_K_rows X (i # is) K =
     (case precompute_K_row X i [0..<i + 1] K of
        Inl e \<Rightarrow> Inl e
      | Inr K' \<Rightarrow> precompute_K_rows X is K')"

definition precompute_K :: "real list list \<Rightarrow> real list list result" where
  "precompute_K X =
     precompute_K_rows X [0..<length X] (np_zeros (length X) (length X))"

text \<open>The shape of a two-dimensional array given as a list of rows.\<close>

definition is_matrix :: "nat \<Rightarrow> nat \<Rightarrow> real list list \<Rightarrow> bool" where
  "is_matrix r c K \<longleftrightarrow> length K = r \<and> list_all (\<lambda>row. length row = c) K"

text \<open>The feature vectors of \<open>X\<close> all have the same length.\<close>

definition equal_lengths :: "real list list \<Rightarrow> bool" where
  "equal_lengths X \<longleftrightarrow> list_all (\<lambda>x. list_all (\<lambda>y. length x = length y) X) X"

text \<open>
  \<^verbatim>\<open>augment_K_precomputed\<close>. The slice assignment \<^verbatim>\<open>K_aug[:n, :n] = K_precomputed\<close>
  broadcasts its right-hand side to the shape \<open>n \<times> n\<close>: an axis of size 1 is repeated,
  any other mismatch is a \<^verbatim>\<open>ValueError\<close>, and so is a list of rows of different
  lengths. A list with no row stands for the array of shape \<open>0 \<times> 0\<close>.
\<close>

definition broadcast_to :: "nat \<Rightarrow> nat \<Rightarrow> real list list \<Rightarrow> real list list result" where
  "broadcast_to r c K =
     (if \<not> list_all (\<lambda>row. length row = length (hd K)) K then Inl (Raised ''ValueError'')
      else if length K \<noteq> r \<and> length K \<noteq> 1 then Inl (Raised ''ValueError'')
      else if K \<noteq> [] \<and> length (hd K) \<noteq> c \<and> length (hd K) \<noteq> 1
        then Inl (Raised ''ValueError'')
      else Inr (map (\<lambda>row. if length row = c then row else replicate c (row ! 0))
                  (if length K = r then K else replicate r (K ! 0))))"

definition assign_block :: "real list list \<Rightarrow> nat \<Rightarrow> real list list \<Rightarrow> real list list result" where
  "assign_block A n K =
     (case broadcast_to (min n (length A)) (min n (length (hd A))) K of
        Inl e \<Rightarrow> Inl e
      | Inr B \<Rightarrow>
          Inr (map (\<lambda>i. if i < n then B ! i @ drop n (A ! i) else A ! i) [0..<length A]))"

text \<open>
  The loop \<^verbatim>\<open>for i in range(len(X_train))\<close>. \<^verbatim>\<open>K_aug\<close> has \<open>n + 1\<close> rows and
  columns, so the index \<^verbatim>\<open>-1\<close> is the index \<open>n\<close>.
\<close>

fun augment_border ::
  "real list list \<Rightarrow> real list \<Rightarrow> nat \<Rightarrow> nat list \<Rightarrow> real list list \<Rightarrow> real list list result" where
  "augment_border X_train x_test n [] A = Inr A"
| "augment_border X_train x_test n (i # is) A =
     (case np_dot (X_train ! i) x_test of
        Inl e \<Rightarrow> Inl e
      | Inr d \<Rightarrow>
          (let A1 = set_entry A n i (1 + d);
               A2 = set_entry A1 i n (A1 ! n ! i)
           in augment_border X_train x_test n is A2))"

definition augment_K_precomputed ::
  "real list list \<Rightarrow> real list list \<Rightarrow> real list \<Rightarrow> real list list result" where
  "augment_K_precomputed K_precomputed X_train x_test =
     (let n = length X_train in
      case assign_block (np_zeros (n + 1) (n + 1)) n K_precomputed of
        Inl e \<Rightarrow> Inl e
      | Inr A1 \<Rightarrow>
          (case augment_border X_train x_test n [0..<n] A1 of
             Inl e \<Rightarrow> Inl e
           | Inr A2 \<Rightarrow>
               (case np_dot x_test x_test of
                  Inl e \<Rightarrow> Inl e
                | Inr d \<Rightarrow> Inr (set_entry A2 n n (1 + d)))))"

section \<open>src/utils/experiments.py: metrics\<close>

text \<open>
  Arithmetic of float64 with the special values, as IEEE 754 and numpy define it: a
  division by zero gives an infinity or nan with a warning, never an exception.
\<close>

fun np_add :: "npfloat \<Rightarrow> npfloat \<Rightarrow> npfloat" where
  "np_add (Fin a) (Fin b) = Fin (a + b)"
| "np_add NaN _ = NaN"
| "np_add _ NaN = NaN"
| "np_add PInf NInf = NaN"
| "np_add NInf PInf = NaN"
| "np_add PInf _ = PInf"
| "np_add _ PInf = PInf"
| "np_add NInf _ = NInf"
| "np_add _ NInf = NInf"

fun np_neg :: "npfloat \<Rightarrow> npfloat" where
  "np_neg (Fin a) = Fin (- a)"
| "np_neg PInf = NInf"
| "np_neg NInf = PInf"
| "np_neg NaN = NaN"

definition np_sub :: "npfloat \<Rightarrow> npfloat \<Rightarrow> npfloat" where
  "np_sub a b = np_add a (np_neg b)"

text \<open>\<^verbatim>\<open>x ** 2\<close>, \<^verbatim>\<open>np.abs\<close>, \<^verbatim>\<open>np.sqrt\<close> and \<^verbatim>\<open>/\<close>.\<close>

fun np_square :: "npfloat \<Rightarrow> npfloat" where
  "np_square (Fin a) = Fin (a\<^sup>2)"
| "np_square PInf = PInf"
| "np_square NInf = PInf"
| "np_square NaN = NaN"

fun np_abs :: "npfloat \<Rightarrow> npfloat" where
  "np_abs (Fin a) = Fin \<bar>a\<bar>"
| "np_abs PInf = PInf"
| "np_abs NInf = PInf"
| "np_abs NaN = NaN"

fun np_sqrt :: "npfloat \<Rightarrow> npfloat" where
  "np_sqrt (Fin a) = (if a < 0 then NaN else Fin (sqrt a))"
| "np_sqrt PInf = PInf"
| "np_sqrt NInf = NaN"
| "np_sqrt NaN = NaN"

fun np_div :: "npfloat \<Rightarrow> npfloat \<Rightarrow> npfloat" where
  "np_div (Fin a) (Fin b) =
     (if b \<noteq> 0 then Fin (a / b) else if 0 < a then PInf else if a < 0 then NInf else NaN)"
| "np_div NaN _ = NaN"
| "np_div _ NaN = NaN"
| "np_div (Fin a) _ = Fin 0"
| "np_div PInf (Fin b) = (if 0 \<le> b then PInf else NInf)"
| "np_div NInf (Fin b) = (if 0 \<le> b then NInf else PInf)"
| "np_div _ _ = NaN"

text \<open>
  \<^verbatim>\<open>np.sum\<close> and \<^verbatim>\<open>np.mean\<close> of a one-dimensional array. In exact arithmetic the
  order of the additions does not matter. The mean of an empty array is \<open>0 / 0\<close>.
\<close>

definition np_sum :: "npfloat list \<Rightarrow> npfloat" where
  "np_sum xs = fold np_add xs (Fin 0)"

definition np_mean :: "npfloat list \<Rightarrow> npfloat" where
  "np_mean xs = np_div (np_sum xs) (Fin (real (length xs)))"

text \<open>
  \<^verbatim>\<open>np.argsort\<close>: the indices of the array in ascending order of the entries. Equal
  entries keep their order here; numpy's default sort leaves their order open.
\<close>

definition argsort :: "real list \<Rightarrow> nat list" where
  "argsort ys = sort_key (\<lambda>i. ys ! i) [0..<length ys]"

text \<open>
  Indexing an array by a list of indices, \<^verbatim>\<open>a[order]\<close>: an \<^verbatim>\<open>IndexError\<close> when an
  index is out of bounds.
\<close>

definition take_ix :: "'a list \<Rightarrow> nat list \<Rightarrow> 'a list result" where
  "take_ix xs order =
     (if list_all (\<lambda>i. i < length xs) order then Inr (map (\<lambda>i. xs ! i) order)
      else Inl (Raised ''IndexError''))"

text \<open>Sequencing: the first exception leaves the function.\<close>

definition and_then :: "'a result \<Rightarrow> ('a \<Rightarrow> 'b result) \<Rightarrow> 'b result" where
  "and_then r f = (case r of Inl e \<Rightarrow> Inl e | Inr v \<Rightarrow> f v)"

text \<open>The difference of two arrays of the same length, entry by entry.\<close>

definition arr_sub :: "real list \<Rightarrow> real list \<Rightarrow> npfloat list" where
  "arr_sub as bs = map (\<lambda>(a, b). np_sub (Fin a) (Fin b)) (zip as bs)"

text \<open>
  \<^verbatim>\<open>compute_rmse\<close>, \<^verbatim>\<open>compute_MAPE\<close> and \<^verbatim>\<open>compute_r2\<close>. The operands are
  evaluated from left to right, as Python does. The parameter \<^verbatim>\<open>y_\<close> of the source is
  written \<open>y\<close>.
\<close>

definition compute_rmse :: "real list \<Rightarrow> real list \<Rightarrow> npfloat result" where
  "compute_rmse y pred =
     (let order = argsort y in
      and_then (take_ix y order) (\<lambda>ys.
      and_then (take_ix pred order) (\<lambda>ps.
      Inr (np_sqrt (np_mean (map np_square (arr_sub ys ps)))))))"

definition compute_MAPE :: "real list \<Rightarrow> real list \<Rightarrow> npfloat result" where
  "compute_MAPE y pred =
     (let order = argsort y in
      and_then (take_ix y order) (\<lambda>ys.
      and_then (take_ix pred order) (\<lambda>ps.
      and_then (take_ix y order) (\<lambda>ds.
      Inr (np_mean (map (\<lambda>(a, d). np_div (np_abs a) (Fin d)) (zip (arr_sub ys ps) ds)))))))"

text \<open>The local variables \<^verbatim>\<open>num\<close> and \<^verbatim>\<open>denum\<close> of \<^verbatim>\<open>compute_r2\<close>.\<close>

definition r2_num_denum :: "real list \<Rightarrow> real list \<Rightarrow> (npfloat \<times> npfloat) result" where
  "r2_num_denum y pred =
     (let order = argsort y in
      and_then (take_ix pred order) (\<lambda>ps.
      and_then (take_ix y order) (\<lambda>ys.
      let num = np_sum (map np_square (arr_sub ps ys)) in
      and_then (take_ix y order) (\<lambda>ys1.
      and_then (take_ix y order) (\<lambda>ys2.
      let m = np_mean (map Fin ys2);
          denum = np_sum (map (\<lambda>y. np_square (np_sub (Fin y) m)) ys1)
      in Inr (num, denum))))))"

definition compute_r2 :: "real list \<Rightarrow> real list \<Rightarrow> npfloat result" where
  "compute_r2 y pred =
     and_then (r2_num_denum y pred) (\<lambda>(num, denum).
     Inr (np_sub (Fin 1) (np_div num denum)))"

section \<open>src/utils/experiments.py: experiments\<close>

text \<open>
  The modules \<^verbatim>\<open>GP_models.*\<close> are imported by \<^verbatim>\<open>experiments.py\<close> and are not among
  the sources. What an experiment uses of such a module is a parameter of the model: the
  constructor \<^verbatim>\<open>GP\<close> (from the training targets and the initial hyperparameters;
  its other arguments only pass through), the function \<^verbatim>\<open>train\<close>, which updates the
  model object in place and here returns the updated object, the first column of the
  predicted means at the test points and at the training points, and the lengthscales
  \<^verbatim>\<open>model.transform_softplus(model.lengthscale)\<close>.
\<close>

record 'm gp_module =
  gp_GP :: "real list \<Rightarrow> real list \<Rightarrow> 'm"
  gp_train :: "'m \<Rightarrow> nat \<Rightarrow> 'm"
  gp_predict_test :: "'m \<Rightarrow> real list"
  gp_predict_train :: "'m \<Rightarrow> real list"
  gp_lengthscales :: "'m \<Rightarrow> real list"

text \<open>
  Modelled from the spec: the functions \<^verbatim>\<open>GP_naive.train\<close>, \<^verbatim>\<open>GP_sig.train\<close>,
  \<^verbatim>\<open>GP_sig_ARD.train\<close> and \<^verbatim>\<open>GP_sig_ARD_full.train\<close> are missing from the sources.
  The spec (4.4) has \<^verbatim>\<open>train(model, num_steps, mode)\<close> run a fixed number of update
  steps, with no convergence check; \<open>step\<close> is one update of the optimizer.
\<close>

fun train :: "('m \<Rightarrow> 'm) \<Rightarrow> 'm \<Rightarrow> nat \<Rightarrow> 'm" where
  "train step model 0 = model"
| "train step model (Suc n) = train step (step model) n"

text \<open>An entry of a returned tuple: a number or an array.\<close>

datatype pyval = Num npfloat | Arr "real list"

text \<open>\<^verbatim>\<open>param_init[k]\<close>.\<close>

definition py_index :: "'a list \<Rightarrow> nat \<Rightarrow> 'a result" where
  "py_index xs k = (if k < length xs then Inr (xs ! k) else Inl (Raised ''IndexError''))"

text \<open>
  The experiments. \<open>y\<close> is the target column \<^verbatim>\<open>y[:, 0]\<close>; the index lists hold
  indices from 0 on. The result is the returned tuple together with the model object as
  training left it. With \<^verbatim>\<open>plot\<close> set, \<^verbatim>\<open>naive_experiment\<close> and
  \<^verbatim>\<open>experiment_precomputed\<close> draw figures and compute nothing else, so the flag is left
  out there. The inputs \<^verbatim>\<open>x\<close>, \<^verbatim>\<open>K_precomputed\<close> and \<^verbatim>\<open>data\<close>, the device and the
  flags \<^verbatim>\<open>ARD\<close>, \<^verbatim>\<open>RBF\<close> and \<^verbatim>\<open>RBF_top\<close> only reach the module and belong to the
  parameter.
\<close>

definition naive_experiment ::
  "'m gp_module \<Rightarrow> real list \<Rightarrow> nat list \<Rightarrow> nat list \<Rightarrow> real list \<Rightarrow> (pyval list \<times> 'm) result" where
  "naive_experiment gp y train_index test_index param_init =
     and_then (take_ix y train_index) (\<lambda>y_train.
     and_then (take_ix y test_index) (\<lambda>y_test.
     and_then (py_index param_init 0) (\<lambda>p0.
     and_then (py_index param_init 1) (\<lambda>p1.
     and_then (py_index param_init 2) (\<lambda>p2.
     and_then (py_index param_init 3) (\<lambda>p3.
     let model = gp_train gp (gp_GP gp y_train [p0, p1, p2, p3]) 2000;
         mu_test = gp_predict_test gp model;
         mu_train = gp_predict_train gp model
     in
     and_then (compute_r2 y_train mu_train) (\<lambda>R2_train.
     and_then (compute_r2 y_test mu_test) (\<lambda>R2_test.
     and_then (compute_rmse y_train mu_train) (\<lambda>RMSE_train.
     and_then (compute_rmse y_test mu_test) (\<lambda>RMSE_test.
     and_then (compute_MAPE y_train mu_train) (\<lambda>MAPE_train.
     and_then (compute_MAPE y_test mu_test) (\<lambda>MAPE_test.
     Inr ([Num RMSE_train, Num R2_train, Num MAPE_train,
           Num RMSE_test, Num R2_test, Num MAPE_test], model)))))))))))))"

definition experiment_precomputed ::
  "'m gp_module \<Rightarrow> real list \<Rightarrow> nat list \<Rightarrow> nat list \<Rightarrow> real list \<Rightarrow> (pyval list \<times> 'm) result" where
  "experiment_precomputed gp y train_index test_index param_init =
     and_then (take_ix y train_index) (\<lambda>y_train.
     and_then (take_ix y test_index) (\<lambda>y_test.
     and_then (py_index param_init 0) (\<lambda>p0.
     and_then (py_index param_init 1) (\<lambda>p1.
     and_then (py_index param_init 2) (\<lambda>p2.
     let model = gp_train gp (gp_GP gp y_train [p0, p1, p2]) 20000;
         mu_test = gp_predict_test gp model;
         mu_train = gp_predict_train gp model
     in
     and_then (compute_r2 y_train mu_train) (\<lambda>R2_train.
     and_then (compute_rmse y_train mu_train) (\<lambda>RMSE_train.
     and_then (compute_MAPE y_train mu_train) (\<lambda>MAPE_train.
     and_then (compute_r2 y_test mu_test) (\<lambda>R2_test.
     and_then (compute_rmse y_test mu_test) (\<lambda>RMSE_test.
     and_then (compute_MAPE y_test mu_test) (\<lambda>MAPE_test.
     Inr ([Num RMSE_train, Num R2_train, Num MAPE_train,
           Num RMSE_test, Num R2_test, Num MAPE_test], model))))))))))))"

text \<open>
  \<^verbatim>\<open>experiment_ARD\<close> builds its model with \<^verbatim>\<open>GP_sig_ARD_full\<close> when \<^verbatim>\<open>full\<close> is
  set and with \<^verbatim>\<open>GP_sig_ARD\<close> otherwise. The variable \<^verbatim>\<open>axs\<close> is assigned only when
  \<^verbatim>\<open>plot\<close> is set, and the call of \<^verbatim>\<open>train\<close> evaluates \<^verbatim>\<open>axs[0]\<close> in both cases.
\<close>

definition experiment_ARD ::
  "'m gp_module \<Rightarrow> 'm gp_module \<Rightarrow> real list \<Rightarrow> nat list \<Rightarrow> nat list \<Rightarrow> real list \<Rightarrow>
   bool \<Rightarrow> bool \<Rightarrow> (pyval list \<times> 'm) result" where
  "experiment_ARD GP_sig_ARD_full GP_sig_ARD y train_index test_index param_init plot full =
     and_then (take_ix y train_index) (\<lambda>y_train.
     and_then (take_ix y test_index) (\<lambda>y_test.
     and_then (py_index param_init 0) (\<lambda>p0.
     and_then (py_index param_init 1) (\<lambda>p1.
     and_then (py_index param_init 2) (\<lambda>p2.
     let gp = (if full then GP_sig_ARD_full else GP_sig_ARD);
         model0 = gp_GP gp y_train [p0, p1, p2]
     in
     if \<not> plot then Inl (Raised ''UnboundLocalError'')
     else
     let model = gp_train gp model0 3000;
         lengthscales = gp_lengthscales gp model;
         mu_test = gp_predict_test gp model;
         mu_train = gp_predict_train gp model
     in
     and_then (compute_r2 y_train mu_train) (\<lambda>R2_train.
     and_then (compute_rmse y_train mu_train) (\<lambda>RMSE_train.
     and_then (compute_r2 y_test mu_test) (\<lambda>R2_test.
     and_then (compute_rmse y_test mu_test) (\<lambda>RMSE_test.
     if full
     then Inr ([Num RMSE_train, Num R2_train, Num RMSE_test, Num R2_test, Arr lengthscales],
               model)
     else Inr ([Num RMSE_train, Num R2_train, Num RMSE_test, Num R2_test], model))))))))))"

text \<open>
  A module to run the experiments on: its model object is the number of updates done,
  and its predictions are the targets \<open>[1, 2]\<close> and \<open>[4]\<close>.
\<close>

definition counting_gp :: "nat gp_module" where
  "counting_gp =
     \<lparr>gp_GP = (\<lambda>y_train params. 0), gp_train = train Suc,
      gp_predict_test = (\<lambda>model. [4]), gp_predict_train = (\<lambda>model. [1, 2]),
      gp_lengthscales = (\<lambda>model. [1, 1])\<rparr>"

section \<open>The kernel builder\<close>

lemma inner_prod_commute: "inner_prod a b = inner_prod b a"
proof -
  have "map (\<lambda>(x, y). x * y) (zip a b) = map (\<lambda>(x, y). x * y) (zip b a)"
    by (induction a arbitrary: b) (auto simp: zip_Cons1 mult.commute split: list.splits)
  then show ?thesis by (simp add: inner_prod_def)
qed


lemma is_matrix_set_entry: "is_matrix r c K \<Longrightarrow> is_matrix r c (set_entry K i j v)"
proof -
  assume m: "is_matrix r c K"
  have "length (set_entry K i j v ! n) = c" if "n < r" for n
    using m that by (cases "n = i") (simp_all add: is_matrix_def set_entry_def list_all_length)
  then show ?thesis using m by (simp add: is_matrix_def set_entry_def list_all_length)
qed

lemma nth_set_entry:
  "is_matrix r c K \<Longrightarrow> a < r \<Longrightarrow> b < c \<Longrightarrow>
   set_entry K i j v ! a ! b = (if a = i \<and> b = j then v else K ! a ! b)"
  by (cases "a = i") (simp_all add: is_matrix_def set_entry_def list_all_length)

lemma precompute_K_row_ok:
  assumes "is_matrix n n K" and "i < n"
    and "\<forall>j\<in>set js. j < n \<and> length (X ! i) = length (X ! j)"
  shows "\<exists>K'. precompute_K_row X i js K = Inr K' \<and> is_matrix n n K' \<and>
           (\<forall>a<n. \<forall>b<n. K' ! a ! b =
              (if (a = i \<and> b \<in> set js) \<or> (b = i \<and> a \<in> set js)
               then 1 + inner_prod (X ! a) (X ! b) else K ! a ! b))"
  using assms
proof (induction js arbitrary: K)
  case Nil
  then show ?case by simp
next
  case (Cons j js)
  define v where "v = 1 + inner_prod (X ! i) (X ! j)"
  define K1 where "K1 = set_entry K i j v"
  define K2 where "K2 = set_entry K1 j i (K1 ! i ! j)"
  from Cons.prems have j: "j < n" and len: "length (X ! i) = length (X ! j)" by simp_all
  have m1: "is_matrix n n K1"
    unfolding K1_def using Cons.prems(1) by (rule is_matrix_set_entry)
  then have m2: "is_matrix n n K2"
    unfolding K2_def by (rule is_matrix_set_entry)
  have e1: "K1 ! a ! b = (if a = i \<and> b = j then v else K ! a ! b)" if "a < n" "b < n" for a b
    unfolding K1_def using Cons.prems(1) that by (rule nth_set_entry)
  have e2: "K2 ! a ! b = (if a = j \<and> b = i then K1 ! i ! j else K1 ! a ! b)"
    if "a < n" "b < n" for a b
    unfolding K2_def using m1 that by (rule nth_set_entry)
  have e3: "K2 ! a ! b = (if (a = i \<and> b = j) \<or> (a = j \<and> b = i) then v else K ! a ! b)"
    if "a < n" "b < n" for a b
  proof -
    have "K1 ! i ! j = v" by (simp add: e1 [OF \<open>i < n\<close> j])
    then show ?thesis
      unfolding e2 [OF that] e1 [OF that]
      by (cases "a = i"; cases "b = j"; cases "a = j"; cases "b = i"; simp)
  qed
  have step: "precompute_K_row X i (j # js) K = precompute_K_row X i js K2"
    using len by (simp add: np_dot_def Let_def K2_def K1_def v_def)
  from Cons.IH [OF m2 \<open>i < n\<close>] Cons.prems(3)
  obtain K' where K': "precompute_K_row X i js K2 = Inr K'" "is_matrix n n K'"
    "\<forall>a<n. \<forall>b<n. K' ! a ! b =
       (if (a = i \<and> b \<in> set js) \<or> (b = i \<and> a \<in> set js)
        then 1 + inner_prod (X ! a) (X ! b) else K2 ! a ! b)"
    by auto
  have vi: "v = 1 + inner_prod (X ! j) (X ! i)"
    unfolding v_def by (simp only: inner_prod_commute [of "X ! j" "X ! i"])
  have "K' ! a ! b =
       (if (a = i \<and> b \<in> set (j # js)) \<or> (b = i \<and> a \<in> set (j # js))
        then 1 + inner_prod (X ! a) (X ! b) else K ! a ! b)" if "a < n" "b < n" for a b
  proof -
    let ?A = "(a = i \<and> b \<in> set js) \<or> (b = i \<and> a \<in> set js)"
    let ?B = "(a = i \<and> b = j) \<or> (a = j \<and> b = i)"
    have k: "K' ! a ! b = (if ?A then 1 + inner_prod (X ! a) (X ! b) else K2 ! a ! b)"
      using K'(3) that by blast
    show ?thesis
    proof (cases ?A)
      case True
      then show ?thesis unfolding k by auto
    next
      case notA: False
      show ?thesis
      proof (cases ?B)
        case True
        then have "1 + inner_prod (X ! a) (X ! b) = v"
          using v_def vi by (elim disjE conjE) simp_all
        with True notA show ?thesis unfolding k e3 [OF that] by auto
      next
        case False
        with notA show ?thesis unfolding k e3 [OF that] by auto
      qed
    qed
  qed
  with K'(1,2) step show ?case by simp
qed

lemma precompute_K_row_error:
  "precompute_K_row X i js K = Inl e \<Longrightarrow> e = Raised ''ValueError''"
  by (induction js arbitrary: K) (auto simp: np_dot_def Let_def split: if_splits)

lemma precompute_K_row_fails:
  "\<exists>j\<in>set js. length (X ! i) \<noteq> length (X ! j) \<Longrightarrow>
   precompute_K_row X i js K = Inl (Raised ''ValueError'')"
  by (induction js arbitrary: K) (auto simp: np_dot_def Let_def)

lemma equal_lengths_nth:
  "equal_lengths X \<longleftrightarrow> (\<forall>a<length X. \<forall>b<length X. length (X ! a) = length (X ! b))"
  by (simp add: equal_lengths_def list_all_length)

lemma precompute_K_rows_ok:
  assumes "is_matrix n n K" and "\<forall>i\<in>set is. i < n"
    and "\<forall>a<n. \<forall>b<n. length (X ! a) = length (X ! b)"
  shows "\<exists>K'. precompute_K_rows X is K = Inr K' \<and> is_matrix n n K' \<and>
           (\<forall>a<n. \<forall>b<n. K' ! a ! b =
              (if \<exists>i\<in>set is. (a = i \<and> b \<le> i) \<or> (b = i \<and> a \<le> i)
               then 1 + inner_prod (X ! a) (X ! b) else K ! a ! b))"
  using assms
proof (induction "is" arbitrary: K)
  case Nil
  then show ?case by simp
next
  case (Cons i "is")
  from Cons.prems(2) have i: "i < n" by simp
  have js: "\<forall>j\<in>set [0..<i + 1]. j < n \<and> length (X ! i) = length (X ! j)"
  proof
    fix j assume "j \<in> set [0..<i + 1]"
    then have "j < n" using i by auto
    with i Cons.prems(3) show "j < n \<and> length (X ! i) = length (X ! j)" by blast
  qed
  from precompute_K_row_ok [OF Cons.prems(1) i js]
  obtain K1 where K1: "precompute_K_row X i [0..<i + 1] K = Inr K1" "is_matrix n n K1"
    "\<forall>a<n. \<forall>b<n. K1 ! a ! b =
       (if (a = i \<and> b \<in> set [0..<i + 1]) \<or> (b = i \<and> a \<in> set [0..<i + 1])
        then 1 + inner_prod (X ! a) (X ! b) else K ! a ! b)"
    by blast
  from Cons.prems(2) have rest: "\<forall>i\<in>set is. i < n" by simp
  from Cons.IH [OF K1(2) rest Cons.prems(3)]
  obtain K' where K': "precompute_K_rows X is K1 = Inr K'" "is_matrix n n K'"
    "\<forall>a<n. \<forall>b<n. K' ! a ! b =
       (if \<exists>i\<in>set is. (a = i \<and> b \<le> i) \<or> (b = i \<and> a \<le> i)
        then 1 + inner_prod (X ! a) (X ! b) else K1 ! a ! b)"
    by blast
  have "K' ! a ! b =
       (if \<exists>k\<in>set (i # is). (a = k \<and> b \<le> k) \<or> (b = k \<and> a \<le> k)
        then 1 + inner_prod (X ! a) (X ! b) else K ! a ! b)" if "a < n" "b < n" for a b
  proof -
    let ?A = "\<exists>k\<in>set is. (a = k \<and> b \<le> k) \<or> (b = k \<and> a \<le> k)"
    let ?B = "(a = i \<and> b \<le> i) \<or> (b = i \<and> a \<le> i)"
    have k: "K' ! a ! b = (if ?A then 1 + inner_prod (X ! a) (X ! b) else K1 ! a ! b)"
      using K'(3) that by blast
    have k1: "K1 ! a ! b = (if ?B then 1 + inner_prod (X ! a) (X ! b) else K ! a ! b)"
      using K1(3) that by (simp add: less_Suc_eq_le)
    have split: "(\<exists>k\<in>set (i # is). (a = k \<and> b \<le> k) \<or> (b = k \<and> a \<le> k)) \<longleftrightarrow> ?B \<or> ?A"
      by simp
    show ?thesis
    proof (cases "?B \<or> ?A")
      case True
      have "K' ! a ! b = 1 + inner_prod (X ! a) (X ! b)"
      proof (cases ?A)
        case True
        show ?thesis by (simp only: k if_P [OF True])
      next
        case False
        with \<open>?B \<or> ?A\<close> have B: ?B by blast
        show ?thesis by (simp only: k k1 if_not_P [OF False] if_P [OF B])
      qed
      then show ?thesis by (simp only: split if_P [OF True])
    next
      case False
      then have A: "\<not> ?A" and B: "\<not> ?B" by blast+
      have "K' ! a ! b = K ! a ! b"
        by (simp only: k k1 if_not_P [OF A] if_not_P [OF B])
      then show ?thesis by (simp only: split if_not_P [OF False])
    qed
  qed
  with K1(1) K'(1,2) show ?case by simp
qed

lemma precompute_K_ok:
  assumes "equal_lengths X"
  shows "\<exists>K. precompute_K X = Inr K \<and> is_matrix (length X) (length X) K \<and>
           (\<forall>a<length X. \<forall>b<length X. K ! a ! b = 1 + inner_prod (X ! a) (X ! b))"
proof -
  let ?n = "length X"
  have z: "is_matrix ?n ?n (np_zeros ?n ?n)"
    by (simp add: is_matrix_def np_zeros_def list_all_length)
  have idx: "\<forall>i\<in>set [0..<?n]. i < ?n" by simp
  have len: "\<forall>a<?n. \<forall>b<?n. length (X ! a) = length (X ! b)"
    using assms by (simp only: equal_lengths_nth)
  from precompute_K_rows_ok [OF z idx len]
  obtain K where K: "precompute_K_rows X [0..<?n] (np_zeros ?n ?n) = Inr K" "is_matrix ?n ?n K"
    "\<forall>a<?n. \<forall>b<?n. K ! a ! b =
       (if \<exists>i\<in>set [0..<?n]. (a = i \<and> b \<le> i) \<or> (b = i \<and> a \<le> i)
        then 1 + inner_prod (X ! a) (X ! b) else np_zeros ?n ?n ! a ! b)"
    by blast
  have "K ! a ! b = 1 + inner_prod (X ! a) (X ! b)" if "a < ?n" "b < ?n" for a b
  proof -
    have "\<exists>i\<in>set [0..<?n]. (a = i \<and> b \<le> i) \<or> (b = i \<and> a \<le> i)"
    proof (cases "b \<le> a")
      case True
      then show ?thesis using that by (intro bexI [of _ a]) simp_all
    next
      case False
      then show ?thesis using that by (intro bexI [of _ b]) simp_all
    qed
    then show ?thesis using K(3) that by simp
  qed
  with K(1,2) show ?thesis by (simp add: precompute_K_def)
qed

lemma precompute_K_rows_fails:
  "\<exists>i\<in>set is. \<exists>j\<le>i. length (X ! i) \<noteq> length (X ! j) \<Longrightarrow>
   precompute_K_rows X is K = Inl (Raised ''ValueError'')"
proof (induction "is" arbitrary: K)
  case Nil
  then show ?case by simp
next
  case (Cons i "is")
  show ?case
  proof (cases "precompute_K_row X i [0..<i + 1] K")
    case (Inl e)
    then show ?thesis using precompute_K_row_error [OF Inl] by simp
  next
    case (Inr K1)
    have "\<not> (\<exists>j\<in>set [0..<i + 1]. length (X ! i) \<noteq> length (X ! j))"
      using precompute_K_row_fails [of "[0..<i + 1]" X i K] Inr by auto
    moreover have "j \<in> set [0..<i + 1]" if "j \<le> i" for j
      using that by auto
    ultimately have "\<not> (\<exists>j\<le>i. length (X ! i) \<noteq> length (X ! j))"
      by blast
    with Cons.prems have "\<exists>i\<in>set is. \<exists>j\<le>i. length (X ! i) \<noteq> length (X ! j)"
      by auto
    from Cons.IH [OF this] Inr show ?thesis by simp
  qed
qed

lemma precompute_K_fails:
  assumes "\<not> equal_lengths X"
  shows "precompute_K X = Inl (Raised ''ValueError'')"
proof -
  from assms obtain a b where ab: "a < length X" "b < length X" "length (X ! a) \<noteq> length (X ! b)"
    unfolding equal_lengths_nth by blast
  have "\<exists>i\<in>set [0..<length X]. \<exists>j\<le>i. length (X ! i) \<noteq> length (X ! j)"
  proof (cases "b \<le> a")
    case True
    with ab show ?thesis by (intro bexI [of _ a] exI [of _ b]) simp_all
  next
    case False
    with ab show ?thesis by (intro bexI [of _ b] exI [of _ a]) simp_all
  qed
  then show ?thesis unfolding precompute_K_def by (rule precompute_K_rows_fails)
qed

lemma broadcast_to_same: "is_matrix r c K \<Longrightarrow> broadcast_to r c K = Inr K"
proof -
  assume m: "is_matrix r c K"
  then have rows: "\<forall>row\<in>set K. length row = c" by (simp add: is_matrix_def list_all_iff)
  have "list_all (\<lambda>row. length row = length (hd K)) K"
    using rows by (cases K) (simp_all add: list_all_iff)
  moreover have "K \<noteq> [] \<Longrightarrow> length (hd K) = c" using rows by (cases K) simp_all
  moreover have "map (\<lambda>row. if length row = c then row else replicate c (row ! 0)) K = K"
    using rows by (simp add: map_idI)
  ultimately show ?thesis using m by (auto simp: broadcast_to_def is_matrix_def)
qed

lemma assign_block_zeros:
  assumes "is_matrix n n K"
  shows "\<exists>A. assign_block (np_zeros (n + 1) (n + 1)) n K = Inr A \<and> is_matrix (n + 1) (n + 1) A \<and>
           (\<forall>a<n + 1. \<forall>b<n + 1. A ! a ! b = (if a < n \<and> b < n then K ! a ! b else 0))"
proof -
  let ?A = "map (\<lambda>i. if i < n then K ! i @ drop n (replicate (n + 1) (0 :: real))
                      else replicate (n + 1) 0) [0..<n + 1]"
  have "hd (np_zeros (n + 1) (n + 1)) = replicate (n + 1) 0" by (simp add: np_zeros_def)
  then have "broadcast_to (min n (length (np_zeros (n + 1) (n + 1))))
               (min n (length (hd (np_zeros (n + 1) (n + 1))))) K = Inr K"
    using broadcast_to_same [OF assms] by (simp add: np_zeros_def)
  then have 1: "assign_block (np_zeros (n + 1) (n + 1)) n K = Inr ?A"
    unfolding assign_block_def np_zeros_def by (simp del: upt_Suc replicate_Suc)
  have len: "length (K ! i) = n" if "i < n" for i
    using assms that by (simp add: is_matrix_def list_all_length)
  have 2: "is_matrix (n + 1) (n + 1) ?A"
    unfolding is_matrix_def list_all_length using len by (simp del: upt_Suc replicate_Suc)
  have 3: "?A ! a ! b = (if a < n \<and> b < n then K ! a ! b else 0)" if "a < n + 1" "b < n + 1" for a b
  proof (cases "a < n")
    case True
    have "drop n (replicate (n + 1) (0 :: real)) = [0]"
      by (simp only: drop_replicate) simp
    then have "?A ! a = K ! a @ [0]"
      using True that by (simp del: upt_Suc replicate_Suc)
    then show ?thesis using True len [OF True] that by (simp add: nth_append)
  next
    case False
    then have "?A ! a = replicate (n + 1) 0" using that by (simp del: upt_Suc replicate_Suc)
    then show ?thesis using False that by (simp del: replicate_Suc)
  qed
  from 1 2 3 show ?thesis by blast
qed

lemma augment_border_ok:
  assumes "is_matrix (n + 1) (n + 1) A"
    and "\<forall>i\<in>set is. i < n \<and> length (X ! i) = length x"
  shows "\<exists>A'. augment_border X x n is A = Inr A' \<and> is_matrix (n + 1) (n + 1) A' \<and>
           (\<forall>a<n + 1. \<forall>b<n + 1. A' ! a ! b =
              (if a = n \<and> b \<in> set is then 1 + inner_prod (X ! b) x
               else if b = n \<and> a \<in> set is then 1 + inner_prod (X ! a) x
               else A ! a ! b))"
  using assms
proof (induction "is" arbitrary: A)
  case Nil
  then show ?case by simp
next
  case (Cons i "is")
  define v where "v = 1 + inner_prod (X ! i) x"
  define A1 where "A1 = set_entry A n i v"
  define A2 where "A2 = set_entry A1 i n (A1 ! n ! i)"
  from Cons.prems(2) have i: "i < n" and len: "length (X ! i) = length x" by simp_all
  have m1: "is_matrix (n + 1) (n + 1) A1"
    unfolding A1_def using Cons.prems(1) by (rule is_matrix_set_entry)
  then have m2: "is_matrix (n + 1) (n + 1) A2"
    unfolding A2_def by (rule is_matrix_set_entry)
  have e1: "A1 ! a ! b = (if a = n \<and> b = i then v else A ! a ! b)"
    if "a < n + 1" "b < n + 1" for a b
    unfolding A1_def using Cons.prems(1) that by (rule nth_set_entry)
  have e2: "A2 ! a ! b = (if a = i \<and> b = n then A1 ! n ! i else A1 ! a ! b)"
    if "a < n + 1" "b < n + 1" for a b
    unfolding A2_def using m1 that by (rule nth_set_entry)
  have v1: "A1 ! n ! i = v" using e1 [of n i] i by simp
  have step: "augment_border X x n (i # is) A = augment_border X x n is A2"
    using len by (simp add: np_dot_def Let_def A2_def A1_def v_def)
  from Cons.prems(2) have rest: "\<forall>i\<in>set is. i < n \<and> length (X ! i) = length x" by simp
  from Cons.IH [OF m2 rest]
  obtain A' where A': "augment_border X x n is A2 = Inr A'" "is_matrix (n + 1) (n + 1) A'"
    "\<forall>a<n + 1. \<forall>b<n + 1. A' ! a ! b =
       (if a = n \<and> b \<in> set is then 1 + inner_prod (X ! b) x
        else if b = n \<and> a \<in> set is then 1 + inner_prod (X ! a) x
        else A2 ! a ! b)"
    by blast
  have "A' ! a ! b =
       (if a = n \<and> b \<in> set (i # is) then 1 + inner_prod (X ! b) x
        else if b = n \<and> a \<in> set (i # is) then 1 + inner_prod (X ! a) x
        else A ! a ! b)" if "a < n + 1" "b < n + 1" for a b
  proof -
    have k: "A' ! a ! b =
       (if a = n \<and> b \<in> set is then 1 + inner_prod (X ! b) x
        else if b = n \<and> a \<in> set is then 1 + inner_prod (X ! a) x
        else A2 ! a ! b)"
      using A'(3) that by blast
    have k2: "A2 ! a ! b = (if a = i \<and> b = n then v else if a = n \<and> b = i then v else A ! a ! b)"
      unfolding e2 [OF that] e1 [OF that] v1 by simp
    show ?thesis
      unfolding k k2 v_def using i
      by (cases "a = n"; cases "b = n"; cases "a = i"; cases "b = i"; simp)
  qed
  with A'(1,2) step show ?case by simp
qed

text \<open>
  C1. For every list \<open>X\<close> of feature vectors of equal length, \<^verbatim>\<open>precompute_K\<close>
  returns a square matrix of size \<open>len(X)\<close> whose entry \<open>(i, j)\<close> is
  \<open>1 + \<langle>X[i], X[j]\<rangle>\<close> and equals the entry \<open>(j, i)\<close>.
\<close>

theorem precompute_K_kernel:
  assumes "equal_lengths X"
  shows "\<exists>K. precompute_K X = Inr K \<and> is_matrix (length X) (length X) K \<and>
           (\<forall>i<length X. \<forall>j<length X.
              K ! i ! j = 1 + inner_prod (X ! i) (X ! j) \<and> K ! i ! j = K ! j ! i)"
proof -
  from precompute_K_ok [OF assms]
  obtain K where K: "precompute_K X = Inr K" "is_matrix (length X) (length X) K"
    "\<forall>a<length X. \<forall>b<length X. K ! a ! b = 1 + inner_prod (X ! a) (X ! b)"
    by blast
  have "K ! i ! j = K ! j ! i" if "i < length X" "j < length X" for i j
    using K(3) that inner_prod_commute [of "X ! i" "X ! j"] by simp
  with K show ?thesis by blast
qed

theorem precompute_K_kernel_witness:
  "equal_lengths [[1, 2], [3, 4]] \<and>
   precompute_K [[1, 2], [3, 4]] = Inr [[6, 12], [12, 26]] \<and>
   is_matrix 2 2 [[6, 12], [12, 26]]"
proof -
  have e: "equal_lengths [[1, 2], [3, 4]]" by (simp add: equal_lengths_def)
  have v: "precompute_K [[1, 2], [3, 4]] = Inr [[6, 12], [12, 26]]" by code_simp
  from precompute_K_kernel [OF e]
  obtain K where K: "precompute_K [[1, 2], [3, 4]] = Inr K"
    "is_matrix (length [[1, 2], [3, 4 :: real]]) (length [[1, 2], [3, 4 :: real]]) K"
    by blast
  from K(1) v have "K = [[6, 12], [12, 26]]" by simp
  with K(2) e v show ?thesis by (simp add: numeral_2_eq_2)
qed

text \<open>
  C7, as stated: when the feature vectors have different lengths, \<^verbatim>\<open>precompute_K\<close>
  fails with a \<^verbatim>\<open>DimensionError\<close>. On a vector of length 1 followed by one of length
  2 the exception that leaves the function is the \<^verbatim>\<open>ValueError\<close> of \<^verbatim>\<open>np.dot\<close>.
\<close>

theorem precompute_K_DimensionError_counterexample:
  "\<not> equal_lengths [[1], [1, 2]] \<and>
   precompute_K [[1], [1, 2]] = Inl (Raised ''ValueError'') \<and>
   precompute_K [[1], [1, 2]] \<noteq> Inl (Raised ''DimensionError'')"
proof -
  have "\<not> equal_lengths [[1], [1, 2]]" by (simp add: equal_lengths_def)
  moreover have "precompute_K [[1], [1, 2]] = Inl (Raised ''ValueError'')" by code_simp
  ultimately show ?thesis by simp
qed

text \<open>
  C7, amended: when the feature vectors of \<open>X\<close> do not all have the same length,
  \<^verbatim>\<open>precompute_K\<close> fails with the \<^verbatim>\<open>ValueError\<close> raised by \<^verbatim>\<open>np.dot\<close>; the call
  is left at that point, without a retry, and no matrix, complete or partial, is returned.
\<close>

theorem precompute_K_inconsistent_lengths:
  "\<not> equal_lengths X \<Longrightarrow> precompute_K X = Inl (Raised ''ValueError'')"
  by (rule precompute_K_fails)

theorem precompute_K_inconsistent_lengths_witness:
  "\<not> equal_lengths [[1, 2, 3], [4, 5, 6], [7, 8]] \<and>
   precompute_K [[1, 2, 3], [4, 5, 6], [7, 8]] = Inl (Raised ''ValueError'')"
proof -
  have e: "\<not> equal_lengths [[1, 2, 3], [4, 5, 6], [7, 8]]" by (simp add: equal_lengths_def)
  from precompute_K_inconsistent_lengths [OF e] e show ?thesis by simp
qed



text \<open>
  C2. For an \<open>n \<times> n\<close> matrix \<open>K\<close>, \<open>n\<close> training vectors and a test vector of the
  same length as each of them, \<^verbatim>\<open>augment_K_precomputed\<close> returns an
  \<open>(n + 1) \<times> (n + 1)\<close> matrix whose top-left block is \<open>K\<close>, whose last row and last
  column hold \<open>1 + \<langle>X_train[i], x_test\<rangle>\<close>, and whose last diagonal entry is
  \<open>1 + \<langle>x_test, x_test\<rangle>\<close>.
\<close>

theorem augment_K_precomputed_border:
  assumes "is_matrix (length X_train) (length X_train) K"
    and "list_all (\<lambda>v. length v = length x_test) X_train"
  shows "\<exists>A. augment_K_precomputed K X_train x_test = Inr A \<and>
           is_matrix (length X_train + 1) (length X_train + 1) A \<and>
           (\<forall>i<length X_train. \<forall>j<length X_train. A ! i ! j = K ! i ! j) \<and>
           (\<forall>i<length X_train.
              A ! length X_train ! i = 1 + inner_prod (X_train ! i) x_test \<and>
              A ! i ! length X_train = 1 + inner_prod (X_train ! i) x_test) \<and>
           A ! length X_train ! length X_train = 1 + inner_prod x_test x_test"
proof -
  let ?n = "length X_train"
  from assign_block_zeros [OF assms(1)]
  obtain A1 where A1: "assign_block (np_zeros (?n + 1) (?n + 1)) ?n K = Inr A1"
    "is_matrix (?n + 1) (?n + 1) A1"
    "\<forall>a<?n + 1. \<forall>b<?n + 1. A1 ! a ! b = (if a < ?n \<and> b < ?n then K ! a ! b else 0)"
    by blast
  have idx: "\<forall>i\<in>set [0..<?n]. i < ?n \<and> length (X_train ! i) = length x_test"
    using assms(2) by (simp add: list_all_length)
  from augment_border_ok [OF A1(2) idx]
  obtain A2 where A2: "augment_border X_train x_test ?n [0..<?n] A1 = Inr A2"
    "is_matrix (?n + 1) (?n + 1) A2"
    "\<forall>a<?n + 1. \<forall>b<?n + 1. A2 ! a ! b =
       (if a = ?n \<and> b \<in> set [0..<?n] then 1 + inner_prod (X_train ! b) x_test
        else if b = ?n \<and> a \<in> set [0..<?n] then 1 + inner_prod (X_train ! a) x_test
        else A1 ! a ! b)"
    by blast
  define A where "A = set_entry A2 ?n ?n (1 + inner_prod x_test x_test)"
  have run: "augment_K_precomputed K X_train x_test = Inr A"
    by (simp only: augment_K_precomputed_def Let_def A1(1) A2(1) sum.case np_dot_def A_def
          simp_thms if_True)
  have m: "is_matrix (?n + 1) (?n + 1) A"
    unfolding A_def using A2(2) by (rule is_matrix_set_entry)
  have e: "A ! a ! b = (if a = ?n \<and> b = ?n then 1 + inner_prod x_test x_test else A2 ! a ! b)"
    if "a < ?n + 1" "b < ?n + 1" for a b
    unfolding A_def using A2(2) that by (rule nth_set_entry)
  have block: "A ! i ! j = K ! i ! j" if "i < ?n" "j < ?n" for i j
  proof -
    have "A ! i ! j = A2 ! i ! j" using e [of i j] that by simp
    also have "\<dots> = A1 ! i ! j" using A2(3) that by simp
    also have "\<dots> = K ! i ! j" using A1(3) that by simp
    finally show ?thesis .
  qed
  have row: "A ! ?n ! i = 1 + inner_prod (X_train ! i) x_test" if "i < ?n" for i
  proof -
    have "A ! ?n ! i = A2 ! ?n ! i" using e [of ?n i] that by simp
    also have "\<dots> = 1 + inner_prod (X_train ! i) x_test" using A2(3) that by simp
    finally show ?thesis .
  qed
  have col: "A ! i ! ?n = 1 + inner_prod (X_train ! i) x_test" if "i < ?n" for i
  proof -
    have "A ! i ! ?n = A2 ! i ! ?n" using e [of i ?n] that by simp
    also have "\<dots> = 1 + inner_prod (X_train ! i) x_test" using A2(3) that by simp
    finally show ?thesis .
  qed
  have corner: "A ! ?n ! ?n = 1 + inner_prod x_test x_test" using e [of ?n ?n] by simp
  from run m block row col corner show ?thesis by blast
qed

theorem augment_K_precomputed_border_witness:
  "is_matrix (length [[1, 2], [3, 4 :: real]]) (length [[1, 2], [3, 4 :: real]]) [[6, 12], [12, 26]] \<and>
   list_all (\<lambda>v. length v = length [1, 1 :: real]) [[1, 2], [3, 4 :: real]] \<and>
   augment_K_precomputed [[6, 12], [12, 26]] [[1, 2], [3, 4]] [1, 1] =
     Inr [[6, 12, 4], [12, 26, 8], [4, 8, 3]] \<and>
   [[6, 12, 4], [12, 26, 8], [4, 8, 3 :: real]] ! 2 ! 2 = 1 + inner_prod [1, 1] [1, 1]"
proof -
  have m: "is_matrix (length [[1, 2], [3, 4 :: real]]) (length [[1, 2], [3, 4 :: real]])
             [[6, 12], [12, 26]]"
    by (simp add: is_matrix_def)
  have l: "list_all (\<lambda>v. length v = length [1, 1 :: real]) [[1, 2], [3, 4 :: real]]"
    by simp
  have v: "augment_K_precomputed [[6, 12], [12, 26]] [[1, 2], [3, 4]] [1, 1] =
             Inr [[6, 12, 4], [12, 26, 8], [4, 8, 3]]"
    by code_simp
  from augment_K_precomputed_border [OF m l]
  obtain A where A: "augment_K_precomputed [[6, 12], [12, 26]] [[1, 2], [3, 4]] [1, 1] = Inr A"
    "A ! length [[1, 2], [3, 4 :: real]] ! length [[1, 2], [3, 4 :: real]] =
       1 + inner_prod [1, 1] [1, 1]"
    by blast
  from A(1) v have "A = [[6, 12, 4], [12, 26, 8], [4, 8, 3]]" by simp
  with A(2) m l v show ?thesis by simp
qed

section \<open>The metrics\<close>

lemma np_add_left_commute: "np_add x (np_add y z) = np_add y (np_add x z)"
  by (cases x; cases y; cases z) simp_all

lemma np_sum_mset: "mset xs = mset ys \<Longrightarrow> np_sum xs = np_sum ys"
  unfolding np_sum_def
  by (rule fold_multiset_equiv [THEN fun_cong]) (auto simp: fun_eq_iff np_add_left_commute)

lemma np_sum_perm:
  assumes "mset p = mset [0..<n]"
  shows "np_sum (map h p) = np_sum (map h [0..<n])"
proof (rule np_sum_mset)
  have "mset (map h p) = image_mset h (mset p)" by simp
  also have "\<dots> = image_mset h (mset [0..<n])" by (simp only: assms)
  also have "\<dots> = mset (map h [0..<n])" by simp
  finally show "mset (map h p) = mset (map h [0..<n])" .
qed



lemma mset_argsort: "mset (argsort y) = mset [0..<length y]"
  by (simp add: argsort_def)

lemma length_argsort: "length (argsort y) = length y"
  by (simp add: argsort_def)

lemma take_ix_argsort:
  assumes "length y \<le> length xs"
  shows "take_ix xs (argsort y) = Inr (map (\<lambda>i. xs ! i) (argsort y))"
proof -
  have "set (argsort y) = {0..<length y}" by (simp add: argsort_def)
  then have "list_all (\<lambda>i. i < length xs) (argsort y)"
    using assms by (auto simp: list_all_iff)
  then show ?thesis by (simp add: take_ix_def)
qed

lemma arr_sub_map:
  "arr_sub (map f xs) (map g xs) = map (\<lambda>i. np_sub (Fin (f i)) (Fin (g i))) xs"
  by (induction xs) (simp_all add: arr_sub_def)

lemma compute_rmse_index:
  assumes "length y \<le> length pred"
  shows "compute_rmse y pred =
    Inr (np_sqrt (np_div
      (np_sum (map (\<lambda>i. np_square (np_sub (Fin (y ! i)) (Fin (pred ! i)))) [0..<length y]))
      (Fin (real (length y)))))"
proof -
  have "compute_rmse y pred =
    Inr (np_sqrt (np_mean
      (map (\<lambda>i. np_square (np_sub (Fin (y ! i)) (Fin (pred ! i)))) (argsort y))))"
    by (simp add: compute_rmse_def Let_def and_then_def take_ix_argsort assms arr_sub_map o_def)
  then show ?thesis
    by (simp add: np_mean_def length_argsort np_sum_perm [OF mset_argsort])
qed

lemma compute_MAPE_index:
  assumes "length y \<le> length pred"
  shows "compute_MAPE y pred =
    Inr (np_div
      (np_sum (map (\<lambda>i. np_div (np_abs (np_sub (Fin (y ! i)) (Fin (pred ! i)))) (Fin (y ! i)))
         [0..<length y]))
      (Fin (real (length y))))"
proof -
  have z: "zip (map f xs) (map g xs) = map (\<lambda>i. (f i, g i)) xs" for f :: "nat \<Rightarrow> npfloat"
    and g :: "nat \<Rightarrow> real" and xs
    by (induction xs) simp_all
  have "compute_MAPE y pred =
    Inr (np_mean
      (map (\<lambda>i. np_div (np_abs (np_sub (Fin (y ! i)) (Fin (pred ! i)))) (Fin (y ! i)))
         (argsort y)))"
    by (simp add: compute_MAPE_def Let_def and_then_def take_ix_argsort assms arr_sub_map z o_def)
  then show ?thesis
    by (simp add: np_mean_def length_argsort np_sum_perm [OF mset_argsort])
qed

lemma r2_num_denum_index:
  assumes "length y \<le> length pred"
  shows "r2_num_denum y pred =
    Inr (np_sum (map (\<lambda>i. np_square (np_sub (Fin (pred ! i)) (Fin (y ! i)))) [0..<length y]),
         np_sum (map (\<lambda>i. np_square (np_sub (Fin (y ! i))
                   (np_div (np_sum (map (\<lambda>i. Fin (y ! i)) [0..<length y]))
                      (Fin (real (length y))))))
            [0..<length y]))"
  by (simp add: r2_num_denum_def Let_def and_then_def take_ix_argsort assms arr_sub_map o_def
      np_mean_def length_argsort np_sum_perm [OF mset_argsort])


lemma fold_np_add_Fin:
  "fold np_add (map (\<lambda>i. Fin (f i)) xs) (Fin s) = Fin (s + sum_list (map f xs))"
  by (induction xs arbitrary: s) (simp_all add: algebra_simps)

lemma np_sum_Fin: "np_sum (map (\<lambda>i. Fin (f i)) [0..<n]) = Fin (\<Sum>i = 0..<n. f i)"
  unfolding np_sum_def fold_np_add_Fin by (simp add: interv_sum_list_conv_sum_set_nat)

lemma np_add_nonfinite: "\<not> is_finite s \<Longrightarrow> \<not> is_finite (np_add x s)"
  by (cases x; cases s) simp_all

lemma np_add_nonfinite_left: "\<not> is_finite x \<Longrightarrow> \<not> is_finite (np_add x s)"
  by (cases x; cases s) simp_all

lemma fold_np_add_nonfinite: "\<not> is_finite s \<Longrightarrow> \<not> is_finite (fold np_add xs s)"
  by (induction xs arbitrary: s) (simp_all add: np_add_nonfinite)

lemma np_sum_nonfinite:
  assumes "x \<in> set xs" and "\<not> is_finite x"
  shows "\<not> is_finite (np_sum xs)"
proof -
  have "\<not> is_finite (fold np_add xs s)" for s
    using assms(1)
  proof (induction xs arbitrary: s)
    case Nil
    then show ?case by simp
  next
    case (Cons a xs)
    show ?case
    proof (cases "x = a")
      case True
      then have "\<not> is_finite (np_add a s)" using assms(2) by (simp add: np_add_nonfinite_left)
      then show ?thesis by (simp add: fold_np_add_nonfinite)
    next
      case False
      with Cons.prems have "x \<in> set xs" by simp
      from Cons.IH [OF this] show ?thesis by simp
    qed
  qed
  then show ?thesis by (simp add: np_sum_def)
qed

lemma np_div_nonfinite: "\<not> is_finite a \<Longrightarrow> \<not> is_finite (np_div a (Fin b))"
  by (cases a) simp_all









text \<open>
  C5, as stated: when an entry of \<open>y_true\<close> is 0, \<^verbatim>\<open>compute_MAPE\<close> raises an
  \<^verbatim>\<open>UndefinedMetricError\<close>. On \<open>y_true = [3, 0, 2]\<close> and \<open>y_pred = [3, 5, 2]\<close> it
  raises nothing and returns \<open>inf\<close>.
\<close>

theorem compute_MAPE_UndefinedMetricError_counterexample:
  "0 \<in> set [3, 0, 2 :: real] \<and>
   compute_MAPE [3, 0, 2] [3, 5, 2] = Inr PInf \<and>
   compute_MAPE [3, 0, 2] [3, 5, 2] \<noteq> Inl (Raised ''UndefinedMetricError'')"
proof -
  have "compute_MAPE [3, 0, 2] [3, 5, 2] = Inr PInf" by code_simp
  then show ?thesis by simp
qed

text \<open>
  C5, amended: for \<open>y_true\<close> and \<open>y_pred\<close> of equal length, when an entry of
  \<open>y_true\<close> is 0, \<^verbatim>\<open>compute_MAPE\<close> raises no error and returns a value that is not
  finite (\<open>inf\<close> or \<open>nan\<close>); when no entry is 0 it returns the mean of
  \<open>|y_true[i] - y_pred[i]| / y_true[i]\<close>, which for empty arrays is \<open>nan\<close>.
\<close>

theorem compute_MAPE_zero_target:
  assumes "length y = length pred"
  shows "(0 \<in> set y \<longrightarrow> (\<exists>v. compute_MAPE y pred = Inr v \<and> \<not> is_finite v)) \<and>
         (0 \<notin> set y \<longrightarrow>
            compute_MAPE y pred =
              Inr (if y = [] then NaN
                   else Fin ((\<Sum>i = 0..<length y. \<bar>y ! i - pred ! i\<bar> / y ! i) / real (length y))))"
proof (intro conjI impI)
  let ?t = "\<lambda>i. np_div (np_abs (np_sub (Fin (y ! i)) (Fin (pred ! i)))) (Fin (y ! i))"
  have le: "length y \<le> length pred" using assms by simp
  note form = compute_MAPE_index [OF le]
  {
    assume "0 \<in> set y"
    then obtain k where k: "k < length y" "y ! k = 0" by (auto simp: in_set_conv_nth)
    have "\<not> is_finite (?t k)" by (simp add: k np_sub_def)
    moreover have "?t k \<in> set (map ?t [0..<length y])" using k(1) by simp
    ultimately have "\<not> is_finite (np_sum (map ?t [0..<length y]))"
      by (rule np_sum_nonfinite [rotated])
    then have "\<not> is_finite (np_div (np_sum (map ?t [0..<length y])) (Fin (real (length y))))"
      by (rule np_div_nonfinite)
    with form show "\<exists>v. compute_MAPE y pred = Inr v \<and> \<not> is_finite v" by simp
  }
  {
    assume nz: "0 \<notin> set y"
    have "map ?t [0..<length y] = map (\<lambda>i. Fin (\<bar>y ! i - pred ! i\<bar> / y ! i)) [0..<length y]"
    proof (rule map_cong [OF refl])
      fix i assume "i \<in> set [0..<length y]"
      then have "y ! i \<in> set y" by simp
      with nz have "y ! i \<noteq> 0" by metis
      then show "?t i = Fin (\<bar>y ! i - pred ! i\<bar> / y ! i)" by (simp add: np_sub_def)
    qed
    then have "np_sum (map ?t [0..<length y]) = Fin (\<Sum>i = 0..<length y. \<bar>y ! i - pred ! i\<bar> / y ! i)"
      by (simp only: np_sum_Fin)
    with form show "compute_MAPE y pred =
              Inr (if y = [] then NaN
                   else Fin ((\<Sum>i = 0..<length y. \<bar>y ! i - pred ! i\<bar> / y ! i) / real (length y)))"
      by simp
  }
qed


theorem compute_MAPE_zero_target_witness:
  "length [3, 0, 2 :: real] = length [3, 5, 2 :: real] \<and> 0 \<in> set [3, 0, 2 :: real] \<and>
   compute_MAPE [3, 0, 2] [3, 5, 2] = Inr PInf \<and> \<not> is_finite PInf \<and>
   length [3, 1, 2 :: real] = length [3, 5, 2 :: real] \<and> 0 \<notin> set [3, 1, 2 :: real] \<and>
   compute_MAPE [3, 1, 2] [3, 5, 2] = Inr (Fin (4 / 3))"
proof -
  have l: "length [3, 0, 2 :: real] = length [3, 5, 2 :: real]" by simp
  have l': "length [3, 1, 2 :: real] = length [3, 5, 2 :: real]" by simp
  have v: "compute_MAPE [3, 0, 2] [3, 5, 2] = Inr PInf" by code_simp
  have "compute_MAPE [3, 1, 2] [3, 5, 2] =
          Inr (Fin ((\<Sum>i = 0..<length [3, 1, 2 :: real].
                 \<bar>[3, 1, 2] ! i - [3, 5, 2] ! i\<bar> / [3, 1, 2] ! i) / real (length [3, 1, 2 :: real])))"
    using compute_MAPE_zero_target [OF l'] by simp
  also have "\<dots> = Inr (Fin (4 / 3))"
    by (simp add: numeral_3_eq_3)
  finally have v': "compute_MAPE [3, 1, 2] [3, 5, 2] = Inr (Fin (4 / 3))" .
  from compute_MAPE_zero_target [OF l] v v' show ?thesis by simp
qed




section \<open>The experiments\<close>

lemma train_funpow: "train step model n = (step ^^ n) model"
  by (induction n arbitrary: model) (simp_all add: funpow_swap1)

lemma train_Suc: "train Suc m n = m + n"
  by (simp add: train_funpow Suc_funpow)

lemma take_ix_Inr: "take_ix xs order = Inr ys \<Longrightarrow> ys = map (\<lambda>i. xs ! i) order"
  by (simp add: take_ix_def split: if_splits)

lemma py_index_Inr: "py_index xs k = Inr v \<Longrightarrow> v = xs ! k"
  by (simp add: py_index_def split: if_splits)

lemma and_then_Inr: "and_then r f = Inr v \<longleftrightarrow> (\<exists>x. r = Inr x \<and> f x = Inr v)"
  by (cases r) (simp_all add: and_then_def)

lemma naive_experiment_Inr:
  assumes "naive_experiment gp y tr te p = Inr (t, m)"
  shows "m = gp_train gp (gp_GP gp (map (\<lambda>i. y ! i) tr) [p ! 0, p ! 1, p ! 2, p ! 3]) 2000"
    and "\<exists>a b c d e f. t = [Num a, Num b, Num c, Num d, Num e, Num f] \<and>
           compute_rmse (map (\<lambda>i. y ! i) tr) (gp_predict_train gp m) = Inr a \<and>
           compute_r2 (map (\<lambda>i. y ! i) tr) (gp_predict_train gp m) = Inr b \<and>
           compute_MAPE (map (\<lambda>i. y ! i) tr) (gp_predict_train gp m) = Inr c \<and>
           compute_rmse (map (\<lambda>i. y ! i) te) (gp_predict_test gp m) = Inr d \<and>
           compute_r2 (map (\<lambda>i. y ! i) te) (gp_predict_test gp m) = Inr e \<and>
           compute_MAPE (map (\<lambda>i. y ! i) te) (gp_predict_test gp m) = Inr f"
  using assms unfolding naive_experiment_def and_then_Inr Let_def
  by (auto dest!: take_ix_Inr py_index_Inr)

lemma experiment_precomputed_Inr:
  assumes "experiment_precomputed gp y tr te p = Inr (t, m)"
  shows "m = gp_train gp (gp_GP gp (map (\<lambda>i. y ! i) tr) [p ! 0, p ! 1, p ! 2]) 20000"
    and "\<exists>a b c d e f. t = [Num a, Num b, Num c, Num d, Num e, Num f] \<and>
           compute_rmse (map (\<lambda>i. y ! i) tr) (gp_predict_train gp m) = Inr a \<and>
           compute_r2 (map (\<lambda>i. y ! i) tr) (gp_predict_train gp m) = Inr b \<and>
           compute_MAPE (map (\<lambda>i. y ! i) tr) (gp_predict_train gp m) = Inr c \<and>
           compute_rmse (map (\<lambda>i. y ! i) te) (gp_predict_test gp m) = Inr d \<and>
           compute_r2 (map (\<lambda>i. y ! i) te) (gp_predict_test gp m) = Inr e \<and>
           compute_MAPE (map (\<lambda>i. y ! i) te) (gp_predict_test gp m) = Inr f"
  using assms unfolding experiment_precomputed_def and_then_Inr Let_def
  by (auto dest!: take_ix_Inr py_index_Inr)

lemma experiment_ARD_Inr:
  assumes "experiment_ARD gf ga y tr te p plot full = Inr (t, m)"
  shows "plot"
    and "m = gp_train (if full then gf else ga)
               (gp_GP (if full then gf else ga) (map (\<lambda>i. y ! i) tr) [p ! 0, p ! 1, p ! 2]) 3000"
    and "\<exists>a b d e.
           t = (if full then [Num a, Num b, Num d, Num e, Arr (gp_lengthscales gf m)]
                else [Num a, Num b, Num d, Num e]) \<and>
           compute_rmse (map (\<lambda>i. y ! i) tr) (gp_predict_train (if full then gf else ga) m) = Inr a \<and>
           compute_r2 (map (\<lambda>i. y ! i) tr) (gp_predict_train (if full then gf else ga) m) = Inr b \<and>
           compute_rmse (map (\<lambda>i. y ! i) te) (gp_predict_test (if full then gf else ga) m) = Inr d \<and>
           compute_r2 (map (\<lambda>i. y ! i) te) (gp_predict_test (if full then gf else ga) m) = Inr e"
  using assms
  by (auto simp: experiment_ARD_def and_then_Inr Let_def dest!: take_ix_Inr py_index_Inr
      split: if_splits)

lemma metrics_return:
  assumes "length y \<le> length pred"
  shows "\<exists>a. compute_rmse y pred = Inr a"
    and "\<exists>a. compute_r2 y pred = Inr a"
    and "\<exists>a. compute_MAPE y pred = Inr a"
  by (simp_all add: compute_rmse_index [OF assms] compute_MAPE_index [OF assms]
      compute_r2_def r2_num_denum_index [OF assms] and_then_def)

lemma naive_experiment_returns:
  assumes "list_all (\<lambda>i. i < length y) tr" and "list_all (\<lambda>i. i < length y) te"
    and "4 \<le> length p"
    and "m = gp_train gp (gp_GP gp (map (\<lambda>i. y ! i) tr) [p ! 0, p ! 1, p ! 2, p ! 3]) 2000"
    and "length tr \<le> length (gp_predict_train gp m)"
    and "length te \<le> length (gp_predict_test gp m)"
  shows "\<exists>t. naive_experiment gp y tr te p = Inr (t, m)"
proof -
  let ?ytr = "map (\<lambda>i. y ! i) tr" and ?yte = "map (\<lambda>i. y ! i) te"
  have tr: "length ?ytr \<le> length (gp_predict_train gp m)"
    and te: "length ?yte \<le> length (gp_predict_test gp m)"
    using assms(5,6) by simp_all
  from metrics_return [OF tr] metrics_return [OF te]
  obtain a b c d e f where v:
    "compute_rmse ?ytr (gp_predict_train gp m) = Inr a"
    "compute_r2 ?ytr (gp_predict_train gp m) = Inr b"
    "compute_MAPE ?ytr (gp_predict_train gp m) = Inr c"
    "compute_rmse ?yte (gp_predict_test gp m) = Inr d"
    "compute_r2 ?yte (gp_predict_test gp m) = Inr e"
    "compute_MAPE ?yte (gp_predict_test gp m) = Inr f"
    by blast
  have ix: "take_ix y tr = Inr ?ytr" "take_ix y te = Inr ?yte"
    using assms(1,2) by (simp_all add: take_ix_def)
  have p: "py_index p 0 = Inr (p ! 0)" "py_index p 1 = Inr (p ! 1)"
    "py_index p 2 = Inr (p ! 2)" "py_index p 3 = Inr (p ! 3)"
    using assms(3) by (auto simp: py_index_def)
  have "naive_experiment gp y tr te p =
          Inr ([Num a, Num b, Num c, Num d, Num e, Num f], m)"
    unfolding naive_experiment_def ix p and_then_def sum.case Let_def assms(4) [symmetric] v
    by (rule refl)
  then show ?thesis by blast
qed

lemma experiment_precomputed_returns:
  assumes "list_all (\<lambda>i. i < length y) tr" and "list_all (\<lambda>i. i < length y) te"
    and "3 \<le> length p"
    and "m = gp_train gp (gp_GP gp (map (\<lambda>i. y ! i) tr) [p ! 0, p ! 1, p ! 2]) 20000"
    and "length tr \<le> length (gp_predict_train gp m)"
    and "length te \<le> length (gp_predict_test gp m)"
  shows "\<exists>t. experiment_precomputed gp y tr te p = Inr (t, m)"
proof -
  let ?ytr = "map (\<lambda>i. y ! i) tr" and ?yte = "map (\<lambda>i. y ! i) te"
  have tr: "length ?ytr \<le> length (gp_predict_train gp m)"
    and te: "length ?yte \<le> length (gp_predict_test gp m)"
    using assms(5,6) by simp_all
  from metrics_return [OF tr] metrics_return [OF te]
  obtain a b c d e f where v:
    "compute_rmse ?ytr (gp_predict_train gp m) = Inr a"
    "compute_r2 ?ytr (gp_predict_train gp m) = Inr b"
    "compute_MAPE ?ytr (gp_predict_train gp m) = Inr c"
    "compute_rmse ?yte (gp_predict_test gp m) = Inr d"
    "compute_r2 ?yte (gp_predict_test gp m) = Inr e"
    "compute_MAPE ?yte (gp_predict_test gp m) = Inr f"
    by blast
  have ix: "take_ix y tr = Inr ?ytr" "take_ix y te = Inr ?yte"
    using assms(1,2) by (simp_all add: take_ix_def)
  have p: "py_index p 0 = Inr (p ! 0)" "py_index p 1 = Inr (p ! 1)"
    "py_index p 2 = Inr (p ! 2)"
    using assms(3) by (auto simp: py_index_def)
  have "experiment_precomputed gp y tr te p =
          Inr ([Num a, Num b, Num c, Num d, Num e, Num f], m)"
    unfolding experiment_precomputed_def ix p and_then_def sum.case Let_def
      assms(4) [symmetric] v
    by (rule refl)
  then show ?thesis by blast
qed

lemma experiment_ARD_returns:
  assumes "list_all (\<lambda>i. i < length y) tr" and "list_all (\<lambda>i. i < length y) te"
    and "3 \<le> length p" and "plot"
    and "gp = (if full then gf else ga)"
    and "m = gp_train gp (gp_GP gp (map (\<lambda>i. y ! i) tr) [p ! 0, p ! 1, p ! 2]) 3000"
    and "length tr \<le> length (gp_predict_train gp m)"
    and "length te \<le> length (gp_predict_test gp m)"
  shows "\<exists>t. experiment_ARD gf ga y tr te p plot full = Inr (t, m)"
proof -
  let ?ytr = "map (\<lambda>i. y ! i) tr" and ?yte = "map (\<lambda>i. y ! i) te"
  have tr: "length ?ytr \<le> length (gp_predict_train gp m)"
    and te: "length ?yte \<le> length (gp_predict_test gp m)"
    using assms(7,8) by simp_all
  from metrics_return(1,2) [OF tr] metrics_return(1,2) [OF te]
  obtain a b d e where v:
    "compute_rmse ?ytr (gp_predict_train gp m) = Inr a"
    "compute_r2 ?ytr (gp_predict_train gp m) = Inr b"
    "compute_rmse ?yte (gp_predict_test gp m) = Inr d"
    "compute_r2 ?yte (gp_predict_test gp m) = Inr e"
    by blast
  have ix: "take_ix y tr = Inr ?ytr" "take_ix y te = Inr ?yte"
    using assms(1,2) by (simp_all add: take_ix_def)
  have p: "py_index p 0 = Inr (p ! 0)" "py_index p 1 = Inr (p ! 1)"
    "py_index p 2 = Inr (p ! 2)"
    using assms(3) by (auto simp: py_index_def)
  have "experiment_ARD gf ga y tr te p plot full =
          Inr (if full then [Num a, Num b, Num d, Num e, Arr (gp_lengthscales gp m)]
               else [Num a, Num b, Num d, Num e], m)"
    unfolding experiment_ARD_def ix p and_then_def sum.case Let_def
      assms(5) [symmetric] assms(6) [symmetric] v
    using assms(4) by simp
  then show ?thesis by blast
qed

lemmas metric_defs = compute_rmse_def compute_r2_def r2_num_denum_def compute_MAPE_def
  argsort_def take_ix_def and_then_def arr_sub_def np_mean_def np_sum_def np_sub_def py_index_def

lemma counting_gp_runs:
  "naive_experiment counting_gp [1, 2, 4] [0, 1] [2] [0, 0, 0, 0] =
     Inr ([Num (Fin 0), Num (Fin 1), Num (Fin 0), Num (Fin 0), Num NaN, Num (Fin 0)], 2000)"
  "experiment_precomputed counting_gp [1, 2, 4] [0, 1] [2] [0, 0, 0] =
     Inr ([Num (Fin 0), Num (Fin 1), Num (Fin 0), Num (Fin 0), Num NaN, Num (Fin 0)], 20000)"
  "experiment_ARD counting_gp counting_gp [1, 2, 4] [0, 1] [2] [0, 0, 0] True False =
     Inr ([Num (Fin 0), Num (Fin 1), Num (Fin 0), Num NaN], 3000)"
  "experiment_ARD counting_gp counting_gp [1, 2, 4] [0, 1] [2] [0, 0, 0] True True =
     Inr ([Num (Fin 0), Num (Fin 1), Num (Fin 0), Num NaN, Arr [1, 1]], 3000)"
  by (simp_all add: naive_experiment_def experiment_precomputed_def experiment_ARD_def
      counting_gp_def metric_defs upt_rec train_Suc)

text \<open>
  C4, as stated: every experiment returns the six metrics (train RMSE, train R2, train
  MAPE, test RMSE, test R2, test MAPE), and \<^verbatim>\<open>experiment_ARD\<close> with \<^verbatim>\<open>full\<close> set
  returns the lengthscales as well. \<^verbatim>\<open>experiment_ARD\<close> returns four metrics, without
  the two MAPE values: a tuple of four entries, and of five with \<^verbatim>\<open>full\<close> set.
\<close>

theorem experiment_ARD_six_tuple_counterexample:
  "experiment_ARD counting_gp counting_gp [1, 2, 4] [0, 1] [2] [0, 0, 0] True False =
     Inr ([Num (Fin 0), Num (Fin 1), Num (Fin 0), Num NaN], 3000) \<and>
   length [Num (Fin 0), Num (Fin 1), Num (Fin 0), Num NaN] \<noteq> 6 \<and>
   experiment_ARD counting_gp counting_gp [1, 2, 4] [0, 1] [2] [0, 0, 0] True True =
     Inr ([Num (Fin 0), Num (Fin 1), Num (Fin 0), Num NaN, Arr [1, 1]], 3000) \<and>
   length [Num (Fin 0), Num (Fin 1), Num (Fin 0), Num NaN, Arr [1, 1]] \<noteq> 7"
  using counting_gp_runs(3,4) by simp

text \<open>
  C4, amended: \<^verbatim>\<open>naive_experiment\<close> and \<^verbatim>\<open>experiment_precomputed\<close> return the tuple
  (train RMSE, train R2, train MAPE, test RMSE, test R2, test MAPE);
  \<^verbatim>\<open>experiment_ARD\<close> returns the tuple (train RMSE, train R2, test RMSE, test R2),
  followed by the lengthscales when \<^verbatim>\<open>full\<close> is set. Each is stated for indices within
  \<open>y\<close>, initial hyperparameters that are long enough, and predictions that cover the
  targets; \<open>m\<close> is the trained model, and \<^verbatim>\<open>experiment_ARD\<close> is taken with \<^verbatim>\<open>plot\<close>
  set.
\<close>

theorem experiment_return_tuples:
  "(list_all (\<lambda>i. i < length y) tr \<and> list_all (\<lambda>i. i < length y) te \<and> 4 \<le> length p \<and>
    m = gp_train gp (gp_GP gp (map (\<lambda>i. y ! i) tr) [p ! 0, p ! 1, p ! 2, p ! 3]) 2000 \<and>
    length tr \<le> length (gp_predict_train gp m) \<and>
    length te \<le> length (gp_predict_test gp m) \<longrightarrow>
    (\<exists>a b c d e f.
       naive_experiment gp y tr te p = Inr ([Num a, Num b, Num c, Num d, Num e, Num f], m) \<and>
       compute_rmse (map (\<lambda>i. y ! i) tr) (gp_predict_train gp m) = Inr a \<and>
       compute_r2 (map (\<lambda>i. y ! i) tr) (gp_predict_train gp m) = Inr b \<and>
       compute_MAPE (map (\<lambda>i. y ! i) tr) (gp_predict_train gp m) = Inr c \<and>
       compute_rmse (map (\<lambda>i. y ! i) te) (gp_predict_test gp m) = Inr d \<and>
       compute_r2 (map (\<lambda>i. y ! i) te) (gp_predict_test gp m) = Inr e \<and>
       compute_MAPE (map (\<lambda>i. y ! i) te) (gp_predict_test gp m) = Inr f)) \<and>
   (list_all (\<lambda>i. i < length y) tr \<and> list_all (\<lambda>i. i < length y) te \<and> 3 \<le> length p \<and>
    m = gp_train gp (gp_GP gp (map (\<lambda>i. y ! i) tr) [p ! 0, p ! 1, p ! 2]) 20000 \<and>
    length tr \<le> length (gp_predict_train gp m) \<and>
    length te \<le> length (gp_predict_test gp m) \<longrightarrow>
    (\<exists>a b c d e f.
       experiment_precomputed gp y tr te p =
         Inr ([Num a, Num b, Num c, Num d, Num e, Num f], m) \<and>
       compute_rmse (map (\<lambda>i. y ! i) tr) (gp_predict_train gp m) = Inr a \<and>
       compute_r2 (map (\<lambda>i. y ! i) tr) (gp_predict_train gp m) = Inr b \<and>
       compute_MAPE (map (\<lambda>i. y ! i) tr) (gp_predict_train gp m) = Inr c \<and>
       compute_rmse (map (\<lambda>i. y ! i) te) (gp_predict_test gp m) = Inr d \<and>
       compute_r2 (map (\<lambda>i. y ! i) te) (gp_predict_test gp m) = Inr e \<and>
       compute_MAPE (map (\<lambda>i. y ! i) te) (gp_predict_test gp m) = Inr f)) \<and>
   (list_all (\<lambda>i. i < length y) tr \<and> list_all (\<lambda>i. i < length y) te \<and> 3 \<le> length p \<and>
    plot \<and> gp = (if full then gf else ga) \<and>
    m = gp_train gp (gp_GP gp (map (\<lambda>i. y ! i) tr) [p ! 0, p ! 1, p ! 2]) 3000 \<and>
    length tr \<le> length (gp_predict_train gp m) \<and>
    length te \<le> length (gp_predict_test gp m) \<longrightarrow>
    (\<exists>a b d e.
       experiment_ARD gf ga y tr te p plot full =
         Inr (if full then [Num a, Num b, Num d, Num e, Arr (gp_lengthscales gp m)]
              else [Num a, Num b, Num d, Num e], m) \<and>
       compute_rmse (map (\<lambda>i. y ! i) tr) (gp_predict_train gp m) = Inr a \<and>
       compute_r2 (map (\<lambda>i. y ! i) tr) (gp_predict_train gp m) = Inr b \<and>
       compute_rmse (map (\<lambda>i. y ! i) te) (gp_predict_test gp m) = Inr d \<and>
       compute_r2 (map (\<lambda>i. y ! i) te) (gp_predict_test gp m) = Inr e))"
proof (intro conjI impI; elim conjE)
  assume a: "list_all (\<lambda>i. i < length y) tr" "list_all (\<lambda>i. i < length y) te" "4 \<le> length p"
    "m = gp_train gp (gp_GP gp (map (\<lambda>i. y ! i) tr) [p ! 0, p ! 1, p ! 2, p ! 3]) 2000"
    "length tr \<le> length (gp_predict_train gp m)" "length te \<le> length (gp_predict_test gp m)"
  from naive_experiment_returns [OF a]
  obtain t where t: "naive_experiment gp y tr te p = Inr (t, m)" by blast
  from naive_experiment_Inr(2) [OF t] t
  show "\<exists>a b c d e f.
       naive_experiment gp y tr te p = Inr ([Num a, Num b, Num c, Num d, Num e, Num f], m) \<and>
       compute_rmse (map (\<lambda>i. y ! i) tr) (gp_predict_train gp m) = Inr a \<and>
       compute_r2 (map (\<lambda>i. y ! i) tr) (gp_predict_train gp m) = Inr b \<and>
       compute_MAPE (map (\<lambda>i. y ! i) tr) (gp_predict_train gp m) = Inr c \<and>
       compute_rmse (map (\<lambda>i. y ! i) te) (gp_predict_test gp m) = Inr d \<and>
       compute_r2 (map (\<lambda>i. y ! i) te) (gp_predict_test gp m) = Inr e \<and>
       compute_MAPE (map (\<lambda>i. y ! i) te) (gp_predict_test gp m) = Inr f"
    by blast
next
  assume a: "list_all (\<lambda>i. i < length y) tr" "list_all (\<lambda>i. i < length y) te" "3 \<le> length p"
    "m = gp_train gp (gp_GP gp (map (\<lambda>i. y ! i) tr) [p ! 0, p ! 1, p ! 2]) 20000"
    "length tr \<le> length (gp_predict_train gp m)" "length te \<le> length (gp_predict_test gp m)"
  from experiment_precomputed_returns [OF a]
  obtain t where t: "experiment_precomputed gp y tr te p = Inr (t, m)" by blast
  from experiment_precomputed_Inr(2) [OF t] t
  show "\<exists>a b c d e f.
       experiment_precomputed gp y tr te p =
         Inr ([Num a, Num b, Num c, Num d, Num e, Num f], m) \<and>
       compute_rmse (map (\<lambda>i. y ! i) tr) (gp_predict_train gp m) = Inr a \<and>
       compute_r2 (map (\<lambda>i. y ! i) tr) (gp_predict_train gp m) = Inr b \<and>
       compute_MAPE (map (\<lambda>i. y ! i) tr) (gp_predict_train gp m) = Inr c \<and>
       compute_rmse (map (\<lambda>i. y ! i) te) (gp_predict_test gp m) = Inr d \<and>
       compute_r2 (map (\<lambda>i. y ! i) te) (gp_predict_test gp m) = Inr e \<and>
       compute_MAPE (map (\<lambda>i. y ! i) te) (gp_predict_test gp m) = Inr f"
    by blast
next
  assume a: "list_all (\<lambda>i. i < length y) tr" "list_all (\<lambda>i. i < length y) te" "3 \<le> length p"
    "plot" "gp = (if full then gf else ga)"
    "m = gp_train gp (gp_GP gp (map (\<lambda>i. y ! i) tr) [p ! 0, p ! 1, p ! 2]) 3000"
    "length tr \<le> length (gp_predict_train gp m)" "length te \<le> length (gp_predict_test gp m)"
  from experiment_ARD_returns [OF a]
  obtain t where t: "experiment_ARD gf ga y tr te p plot full = Inr (t, m)" by blast
  from experiment_ARD_Inr(3) [OF t] t a(5)
  show "\<exists>a b d e.
       experiment_ARD gf ga y tr te p plot full =
         Inr (if full then [Num a, Num b, Num d, Num e, Arr (gp_lengthscales gp m)]
              else [Num a, Num b, Num d, Num e], m) \<and>
       compute_rmse (map (\<lambda>i. y ! i) tr) (gp_predict_train gp m) = Inr a \<and>
       compute_r2 (map (\<lambda>i. y ! i) tr) (gp_predict_train gp m) = Inr b \<and>
       compute_rmse (map (\<lambda>i. y ! i) te) (gp_predict_test gp m) = Inr d \<and>
       compute_r2 (map (\<lambda>i. y ! i) te) (gp_predict_test gp m) = Inr e"
    by (cases full) auto
qed


theorem experiment_return_tuples_witness:
  "list_all (\<lambda>i. i < length [1, 2, 4 :: real]) [0, 1] \<and>
   list_all (\<lambda>i. i < length [1, 2, 4 :: real]) [2] \<and>
   4 \<le> length [0, 0, 0, 0 :: real] \<and>
   naive_experiment counting_gp [1, 2, 4] [0, 1] [2] [0, 0, 0, 0] =
     Inr ([Num (Fin 0), Num (Fin 1), Num (Fin 0), Num (Fin 0), Num NaN, Num (Fin 0)], 2000) \<and>
   compute_rmse [1, 2] [1, 2] = Inr (Fin 0) \<and>
   compute_r2 [1, 2] [1, 2] = Inr (Fin 1) \<and>
   compute_MAPE [1, 2] [1, 2] = Inr (Fin 0) \<and>
   compute_rmse [4] [4] = Inr (Fin 0) \<and>
   compute_r2 [4] [4] = Inr NaN \<and>
   compute_MAPE [4] [4] = Inr (Fin 0)"
proof -
  have h: "list_all (\<lambda>i. i < length [1, 2, 4 :: real]) [0, 1]"
    "list_all (\<lambda>i. i < length [1, 2, 4 :: real]) [2]"
    "4 \<le> length [0, 0, 0, 0 :: real]"
    by simp_all
  have m: "(2000 :: nat) = gp_train counting_gp
             (gp_GP counting_gp (map (\<lambda>i. [1, 2, 4] ! i) [0, 1])
                [[0, 0, 0, 0] ! 0, [0, 0, 0, 0] ! 1, [0, 0, 0, 0] ! 2, [0, 0, 0, 0] ! 3]) 2000"
    by (simp add: counting_gp_def train_Suc)
  have l: "length [0, 1 :: nat] \<le> length (gp_predict_train counting_gp (2000 :: nat))"
    "length [2 :: nat] \<le> length (gp_predict_test counting_gp (2000 :: nat))"
    by (simp_all add: counting_gp_def)
  from experiment_return_tuples [THEN conjunct1, rule_format, OF conjI [OF h(1) conjI [OF h(2)
      conjI [OF h(3) conjI [OF m conjI [OF l]]]]]]
  obtain a b c d e f where r:
    "naive_experiment counting_gp [1, 2, 4] [0, 1] [2] [0, 0, 0, 0] =
       Inr ([Num a, Num b, Num c, Num d, Num e, Num f], 2000)"
    "compute_rmse (map (\<lambda>i. [1, 2, 4] ! i) [0, 1]) (gp_predict_train counting_gp 2000) = Inr a"
    "compute_r2 (map (\<lambda>i. [1, 2, 4] ! i) [0, 1]) (gp_predict_train counting_gp 2000) = Inr b"
    "compute_MAPE (map (\<lambda>i. [1, 2, 4] ! i) [0, 1]) (gp_predict_train counting_gp 2000) = Inr c"
    "compute_rmse (map (\<lambda>i. [1, 2, 4] ! i) [2]) (gp_predict_test counting_gp 2000) = Inr d"
    "compute_r2 (map (\<lambda>i. [1, 2, 4] ! i) [2]) (gp_predict_test counting_gp 2000) = Inr e"
    "compute_MAPE (map (\<lambda>i. [1, 2, 4] ! i) [2]) (gp_predict_test counting_gp 2000) = Inr f"
    by blast
  have v: "compute_rmse [1, 2] [1, 2] = Inr (Fin 0)" "compute_r2 [1, 2] [1, 2] = Inr (Fin 1)"
    "compute_MAPE [1, 2] [1, 2] = Inr (Fin 0)" "compute_rmse [4] [4] = Inr (Fin 0)"
    "compute_r2 [4] [4] = Inr NaN" "compute_MAPE [4] [4] = Inr (Fin 0)"
    by (simp_all add: metric_defs upt_rec)
  from r(2-7) v have "a = Fin 0" "b = Fin 1" "c = Fin 0" "d = Fin 0" "e = NaN" "f = Fin 0"
    by (simp_all add: counting_gp_def)
  with r(1) h v show ?thesis by simp
qed

text \<open>
  C9. The model an experiment leaves behind is the one \<^verbatim>\<open>train\<close> returns for the
  literal budget of that experiment: 2000 steps in \<^verbatim>\<open>naive_experiment\<close>, 20000 in
  \<^verbatim>\<open>experiment_precomputed\<close>, 3000 in \<^verbatim>\<open>experiment_ARD\<close>, all between 2000 and 20000;
  and \<^verbatim>\<open>train\<close> applies its update exactly as many times as the budget says, whatever
  the model becomes on the way.
\<close>

theorem training_step_budget:
  "(naive_experiment gp y tr te p = Inr (t, m) \<longrightarrow>
      m = gp_train gp (gp_GP gp (map (\<lambda>i. y ! i) tr) [p ! 0, p ! 1, p ! 2, p ! 3]) 2000) \<and>
   (experiment_precomputed gp y tr te p = Inr (t, m) \<longrightarrow>
      m = gp_train gp (gp_GP gp (map (\<lambda>i. y ! i) tr) [p ! 0, p ! 1, p ! 2]) 20000) \<and>
   (experiment_ARD gf ga y tr te p plot full = Inr (t, m) \<longrightarrow>
      m = gp_train (if full then gf else ga)
            (gp_GP (if full then gf else ga) (map (\<lambda>i. y ! i) tr) [p ! 0, p ! 1, p ! 2]) 3000) \<and>
   {2000, 20000, 3000} \<subseteq> {2000..20000 :: nat} \<and>
   train step model n = (step ^^ n) model"
proof (intro conjI impI)
  assume "naive_experiment gp y tr te p = Inr (t, m)"
  then show "m = gp_train gp (gp_GP gp (map (\<lambda>i. y ! i) tr) [p ! 0, p ! 1, p ! 2, p ! 3]) 2000"
    by (rule naive_experiment_Inr(1))
next
  assume "experiment_precomputed gp y tr te p = Inr (t, m)"
  then show "m = gp_train gp (gp_GP gp (map (\<lambda>i. y ! i) tr) [p ! 0, p ! 1, p ! 2]) 20000"
    by (rule experiment_precomputed_Inr(1))
next
  assume "experiment_ARD gf ga y tr te p plot full = Inr (t, m)"
  then show "m = gp_train (if full then gf else ga)
            (gp_GP (if full then gf else ga) (map (\<lambda>i. y ! i) tr) [p ! 0, p ! 1, p ! 2]) 3000"
    by (rule experiment_ARD_Inr(2))
next
  show "{2000, 20000, 3000} \<subseteq> {2000..20000 :: nat}" by simp
next
  show "train step model n = (step ^^ n) model" by (rule train_funpow)
qed

theorem training_step_budget_witness:
  "naive_experiment counting_gp [1, 2, 4] [0, 1] [2] [0, 0, 0, 0] =
     Inr ([Num (Fin 0), Num (Fin 1), Num (Fin 0), Num (Fin 0), Num NaN, Num (Fin 0)], 2000) \<and>
   gp_train counting_gp (gp_GP counting_gp [1, 2] [0, 0, 0, 0]) 2000 = 2000 \<and>
   experiment_precomputed counting_gp [1, 2, 4] [0, 1] [2] [0, 0, 0] =
     Inr ([Num (Fin 0), Num (Fin 1), Num (Fin 0), Num (Fin 0), Num NaN, Num (Fin 0)], 20000) \<and>
   gp_train counting_gp (gp_GP counting_gp [1, 2] [0, 0, 0]) 20000 = 20000 \<and>
   experiment_ARD counting_gp counting_gp [1, 2, 4] [0, 1] [2] [0, 0, 0] True False =
     Inr ([Num (Fin 0), Num (Fin 1), Num (Fin 0), Num NaN], 3000) \<and>
   gp_train counting_gp (gp_GP counting_gp [1, 2] [0, 0, 0]) 3000 = 3000"
proof -
  note b = training_step_budget [THEN conjunct1, rule_format, OF counting_gp_runs(1)]
    training_step_budget [THEN conjunct2, THEN conjunct1, rule_format, OF counting_gp_runs(2)]
    training_step_budget [THEN conjunct2, THEN conjunct2, THEN conjunct1, rule_format,
      OF counting_gp_runs(3)]
  from b have "gp_train counting_gp (gp_GP counting_gp [1, 2] [0, 0, 0, 0]) 2000 = 2000"
    "gp_train counting_gp (gp_GP counting_gp [1, 2] [0, 0, 0]) 20000 = 20000"
    "gp_train counting_gp (gp_GP counting_gp [1, 2] [0, 0, 0]) 3000 = 3000"
    by simp_all
  with counting_gp_runs show ?thesis by simp
qed

section \<open>The gamma transform\<close>

text \<open>
  C6. \<^verbatim>\<open>gamma\<close> returns its argument unchanged, whatever it is; it does not compute
  the width \<open>1 / (2 l\<^sup>2)\<close> of its docstring, from which it differs at \<open>l = 1\<close>.
\<close>

theorem gamma_identity:
  "gamma l = l \<and> gamma (1 :: real) \<noteq> 1 / (2 * 1\<^sup>2)"
  by (simp add: gamma_def)

end
